theory Spec2Isabelle
  imports Main "HOL-Library.Word"
begin

section \<open>MapMaker: reader dispatch, schema validation and plot construction\<close>

text \<open>
  A shallow embedding of \<^verbatim>\<open>streamlit_app.py\<close>. Python strings are modelled as
  \<^typ>\<open>string\<close>, each \<^typ>\<open>char\<close> standing for the code point of the same number
  (0 to 255). Exceptions are values of \<open>exn + 'a\<close>; the in-place update of the data frame
  made by \<^verbatim>\<open>validate_data\<close> is modelled by returning the frame as the call leaves it.
\<close>

subsection \<open>Python strings\<close>

definition lower_char :: "char \<Rightarrow> char" where
  \<comment> \<open>\<^verbatim>\<open>str.lower\<close> on one code point below 256: A to Z, and the upper-case letters
      of Latin-1 (192 to 222 except the multiplication sign 215), move up by 32.\<close>
  "lower_char c =
     (let n = (of_char c :: nat)
      in if (65 \<le> n \<and> n \<le> 90) \<or> (192 \<le> n \<and> n \<le> 222 \<and> n \<noteq> 215)
         then char_of (n + 32) else c)"

definition lower :: "string \<Rightarrow> string" where
  "lower s = map lower_char s"

definition endswith :: "string \<Rightarrow> string \<Rightarrow> bool" where
  \<comment> \<open>\<^verbatim>\<open>s.endswith(suffix)\<close>\<close>
  "endswith s suf =
     (length suf \<le> length s \<and> drop (length s - length suf) s = suf)"

subsection \<open>Exceptions\<close>

datatype exn =
    ValueError string
  | TypeError string
  | AttributeError string

text \<open>
  The messages that the interpreter writes itself; code point 39 is the apostrophe.
\<close>

definition no_attribute :: "string \<Rightarrow> string \<Rightarrow> exn" where
  \<comment> \<open>\<^verbatim>\<open>AttributeError: 'int' object has no attribute 'lower'\<close>\<close>
  "no_attribute type_name attr =
     AttributeError ([CHR 0x27] @ type_name @ [CHR 0x27] @ '' object has no attribute ''
                     @ [CHR 0x27] @ attr @ [CHR 0x27])"

definition not_iterable :: "string \<Rightarrow> exn" where
  \<comment> \<open>\<^verbatim>\<open>TypeError: 'NoneType' object is not iterable\<close>\<close>
  "not_iterable type_name =
     TypeError ([CHR 0x27] @ type_name @ [CHR 0x27] @ '' object is not iterable'')"

subsection \<open>Data frames\<close>

text \<open>
  Python values as far as the program handles them: \<open>ObjFloat\<close> carries the IEEE-754
  pattern of a float, \<open>ObjList\<close> a list of strings (the column names of a tooltip).
  A pandas column is a typed array: its dtype belongs to the column, not to each value.
  Floats and timestamps are kept as their 64-bit patterns; they are only stored, never
  computed with.
\<close>

datatype pyobj =
    ObjNone
  | ObjStr string
  | ObjInt int
  | ObjFloat "64 word"
  | ObjBool bool
  | ObjList "string list"

datatype series =
    Int64Series "64 word list"
  | Float64Series "64 word list"
  | BoolSeries "bool list"
  | Datetime64Series "64 word list"
  | ObjectSeries "pyobj list"

datatype dtype = np_int64 | np_float64 | np_bool | np_datetime64 | np_object

fun dtype_of :: "series \<Rightarrow> dtype" where
  "dtype_of (Int64Series _) = np_int64"
| "dtype_of (Float64Series _) = np_float64"
| "dtype_of (BoolSeries _) = np_bool"
| "dtype_of (Datetime64Series _) = np_datetime64"
| "dtype_of (ObjectSeries _) = np_object"

datatype scalar =
    Int64Val "64 word"
  | Float64Val "64 word"
  | BoolVal bool
  | Datetime64Val "64 word"
  | ObjectVal pyobj

fun values_of :: "series \<Rightarrow> scalar list" where
  "values_of (Int64Series xs) = map Int64Val xs"
| "values_of (Float64Series xs) = map Float64Val xs"
| "values_of (BoolSeries xs) = map BoolVal xs"
| "values_of (Datetime64Series xs) = map Datetime64Val xs"
| "values_of (ObjectSeries xs) = map ObjectVal xs"

fun is_int64 :: "scalar \<Rightarrow> bool" where
  "is_int64 (Int64Val _) = True"
| "is_int64 _ = False"

text \<open>
  A column label is whatever the parser found in the header: \<^verbatim>\<open>pd.read_csv\<close> gives
  text, \<^verbatim>\<open>pd.read_excel\<close> keeps a numeric header cell as the number it holds. A data
  frame is the ordered list of its columns, each a label with its array.
\<close>

datatype label = StrLabel string | IntLabel int | FloatLabel "64 word"

fun is_text :: "label \<Rightarrow> bool" where
  "is_text (StrLabel _) = True"
| "is_text _ = False"

fun str_lower :: "label \<Rightarrow> exn + string" where
  \<comment> \<open>\<^verbatim>\<open>col_name.lower()\<close>: only \<^verbatim>\<open>str\<close> has the method.\<close>
  "str_lower (StrLabel s) = Inr (lower s)"
| "str_lower (IntLabel _) = Inl (no_attribute ''int'' ''lower'')"
| "str_lower (FloatLabel _) = Inl (no_attribute ''float'' ''lower'')"

fun is_nis_code :: "label \<Rightarrow> bool" where
  \<comment> \<open>\<^verbatim>\<open>col_name.lower() == 'niscode'\<close>, for a label on which the call returns\<close>
  "is_nis_code (StrLabel s) = (lower s = ''niscode'')"
| "is_nis_code _ = False"

type_synonym dataframe = "(label \<times> series) list"

definition columns :: "dataframe \<Rightarrow> label list" where
  \<comment> \<open>\<^verbatim>\<open>data.columns\<close>\<close>
  "columns data = map fst data"

definition set_columns :: "dataframe \<Rightarrow> label list \<Rightarrow> exn + dataframe" where
  \<comment> \<open>\<^verbatim>\<open>data.columns = names\<close>: pandas raises ValueError on a length mismatch.\<close>
  "set_columns data names =
     (if length names \<noteq> length data then Inl (ValueError ''Length mismatch'')
      else Inr (zip names (map snd data)))"

definition getattr_dtype :: "dataframe \<Rightarrow> string \<Rightarrow> exn + dtype" where
  \<comment> \<open>\<^verbatim>\<open>data.<name>.dtype\<close>: no column of that label, or several (the attribute is then
      a frame, which has no dtype), raise AttributeError.\<close>
  "getattr_dtype data name =
     (case filter (\<lambda>c. fst c = StrLabel name) data of
        [] \<Rightarrow> Inl (no_attribute ''DataFrame'' name)
      | [c] \<Rightarrow> Inr (dtype_of (snd c))
      | _ \<Rightarrow> Inl (no_attribute ''DataFrame'' ''dtype''))"

subsection \<open>Schema validator\<close>

definition InsufficientColumns :: exn where
  "InsufficientColumns = ValueError ''data should have at least a NIS code and a data column''"

definition AmbiguousJoinKey :: exn where
  "AmbiguousJoinKey = ValueError ''multiple columns have NIS code name''"

definition MissingJoinKey :: exn where
  "MissingJoinKey = ValueError ''NIS code column is missing''"

definition InvalidJoinKeyType :: exn where
  "InvalidJoinKeyType = ValueError ''data type for NIS code is incorret, should be integer''"

fun nis_code_scan :: "(nat \<times> label) list \<Rightarrow> exn + nat list" where
  \<comment> \<open>The comprehension, label by label: the first label without \<^verbatim>\<open>lower\<close> ends it
      with its AttributeError.\<close>
  "nis_code_scan [] = Inr []"
| "nis_code_scan ((idx, col_name) # rest) =
     (case str_lower col_name of
        Inl e \<Rightarrow> Inl e
      | Inr lowered \<Rightarrow>
          (case nis_code_scan rest of
             Inl e \<Rightarrow> Inl e
           | Inr pos \<Rightarrow> Inr (if lowered = ''niscode'' then idx # pos else pos)))"

definition nis_code_pos :: "dataframe \<Rightarrow> exn + nat list" where
  \<comment> \<open>\<^verbatim>\<open>[idx for idx, col_name in enumerate(data.columns) if col_name.lower() == 'niscode']\<close>\<close>
  "nis_code_pos data = nis_code_scan (enumerate 0 (columns data))"

definition validate_data :: "dataframe \<Rightarrow> (exn + unit) \<times> dataframe" where
  \<comment> \<open>The first component is the exception raised, or \<open>Inr ()\<close> on return; the second is the
      frame as the call leaves it.\<close>
  "validate_data data =
     (if length (columns data) < 2 then (Inl InsufficientColumns, data)
      else
        (case nis_code_pos data of
           Inl e \<Rightarrow> (Inl e, data)
         | Inr pos \<Rightarrow>
             if length pos > 1 then (Inl AmbiguousJoinKey, data)
             else if length pos = 0 then (Inl MissingJoinKey, data)
             else
               (case set_columns data ((columns data)[pos ! 0 := StrLabel ''niscode'']) of
                  Inl e \<Rightarrow> (Inl e, data)
                | Inr data' \<Rightarrow>
                    (case getattr_dtype data' ''niscode'' of
                       Inl e \<Rightarrow> (Inl e, data')
                     | Inr t \<Rightarrow>
                         if t \<noteq> np_int64 then (Inl InvalidJoinKeyType, data')
                         else (Inr (), data')))))"

subsection \<open>Tabular reader\<close>

text \<open>
  \<^verbatim>\<open>pd.read_csv\<close> and \<^verbatim>\<open>pd.read_excel\<close> belong to pandas: they are parameters of the
  model. A source is a path or URI, or an in-memory buffer \<^verbatim>\<open>io.BytesIO(byte_stream)\<close>.
\<close>

datatype source = Path string | BytesIO "8 word list"

type_synonym csv_parser = "source \<Rightarrow> string option \<Rightarrow> string option \<Rightarrow> exn + dataframe"
type_synonym excel_parser = "source \<Rightarrow> exn + dataframe"

definition UnsupportedFormat :: "string \<Rightarrow> exn" where
  \<comment> \<open>\<^verbatim>\<open>ValueError(f'file type of ""{uri}"" is unknown')\<close>; code point 34 is the double quote.\<close>
  "UnsupportedFormat name =
     ValueError (''file type of '' @ [CHR 0x22, CHR 0x22] @ name @ [CHR 0x22, CHR 0x22]
                 @ '' is unknown'')"

definition read_data ::
  "csv_parser \<Rightarrow> excel_parser \<Rightarrow> string \<Rightarrow> string option \<Rightarrow> string option \<Rightarrow> exn + dataframe"
where
  "read_data pd_read_csv pd_read_excel uri encoding delimiter =
     (if endswith (lower uri) ''.csv'' then pd_read_csv (Path uri) encoding delimiter
      else if endswith (lower uri) ''.xlsx'' then pd_read_excel (Path uri)
      else Inl (UnsupportedFormat uri))"

definition read_file ::
  "csv_parser \<Rightarrow> excel_parser \<Rightarrow> string \<Rightarrow> 8 word list \<Rightarrow> string option \<Rightarrow> string option
     \<Rightarrow> exn + dataframe"
where
  "read_file pd_read_csv pd_read_excel name byte_stream encoding delimiter =
     (if endswith (lower name) ''.csv'' then pd_read_csv (BytesIO byte_stream) encoding delimiter
      else if endswith (lower name) ''.xlsx'' then pd_read_excel (BytesIO byte_stream)
      else Inl (UnsupportedFormat name))"

subsection \<open>Plot specification\<close>

definition DATA_TYPES :: "string \<rightharpoonup> string" where
  "DATA_TYPES = [''quantitative'' \<mapsto> ''Q'', ''ordinal'' \<mapsto> ''O'', ''nominal'' \<mapsto> ''N'']"

datatype topo = TopoFeature string string

definition create_topo_data :: "string \<Rightarrow> string \<Rightarrow> topo" where
  "create_topo_data url feature = TopoFeature url feature"

text \<open>
  The part of an Altair chart that the builder fills in. A field left at Altair's
  \<^verbatim>\<open>Undefined\<close> is \<open>None\<close>; Python's \<^verbatim>\<open>None\<close> passed as an argument is \<open>Some ObjNone\<close>.
  Altair's own schema validation of the values it is given is no part of the source and is
  not modelled: a chart records the arguments as they arrive. The model is that of the
  source for the styling values Altair accepts; for others (a number as stroke colour, say)
  Altair raises its validation error where the model goes on.
\<close>

record color_field =
  shorthand :: string
  legend_title_of :: pyobj
  scale_scheme :: pyobj

datatype color_channel = Color color_field | ColorValue pyobj

record lookup_data =
  lookup_frame :: dataframe
  lookup_key :: string
  lookup_fields :: "string list"

record lookup_transform =
  lookup :: string
  lookup_from :: lookup_data

record chart =
  chart_data :: topo
  mark_type :: string
  mark_stroke :: "pyobj option"
  mark_strokeWidth :: "pyobj option"
  encode_color :: "color_channel option"
  encode_opacity :: "64 word option"
  encode_tooltip :: "string list option"
  transform :: "lookup_transform list"
  width :: "int option"
  height :: "int option"

datatype plot = LayerChart (layers: "chart list")

definition chart_add :: "chart \<Rightarrow> chart \<Rightarrow> plot" where
  \<comment> \<open>\<^verbatim>\<open>lower_chart + upper_chart\<close> on two single charts: a layered chart, the left operand first.\<close>
  "chart_add lower_chart upper_chart = LayerChart [lower_chart, upper_chart]"

fun py_iter :: "pyobj \<Rightarrow> exn + string list" where
  \<comment> \<open>Iterating a value: a string yields its characters, a list its elements.\<close>
  "py_iter (ObjStr s) = Inr (map (\<lambda>c. [c]) s)"
| "py_iter (ObjList xs) = Inr xs"
| "py_iter ObjNone = Inl (not_iterable ''NoneType'')"
| "py_iter (ObjInt _) = Inl (not_iterable ''int'')"
| "py_iter (ObjFloat _) = Inl (not_iterable ''float'')"
| "py_iter (ObjBool _) = Inl (not_iterable ''bool'')"

definition float_0_9 :: "64 word" where
  \<comment> \<open>the double nearest to 0.9\<close>
  "float_0_9 = 0x3FECCCCCCCCCCCCD"

definition float_0_5 :: "64 word" where
  \<comment> \<open>the double 0.5\<close>
  "float_0_5 = 0x3FE0000000000000"

subsection \<open>Plot builder\<close>

definition create_plot ::
  "topo \<Rightarrow> dataframe \<Rightarrow> string \<Rightarrow> string \<Rightarrow> pyobj \<Rightarrow> pyobj \<Rightarrow> pyobj \<Rightarrow> pyobj \<Rightarrow> pyobj \<Rightarrow> pyobj
     \<Rightarrow> exn + plot"
where
  \<comment> \<open>Parameters in the order of the Python signature: \<^verbatim>\<open>topo_data, data, column_name,
      data_type, tooltip_columns, stroke, strokeWidth, legend_title, scheme, missing_color\<close>.
      The source names the data layer \<^verbatim>\<open>base\<close>.\<close>
  "create_plot topo_data data column_name data_type tooltip_columns stroke strokeWidth
               legend_title scheme missing_color =
     (case (if tooltip_columns \<noteq> ObjNone
            then (case py_iter tooltip_columns of
                    Inl e \<Rightarrow> Inl e
                  | Inr xs \<Rightarrow> Inr ([column_name] @ xs))
            else Inr [column_name]) of
        Inl e \<Rightarrow> Inl e
      | Inr lookup_columns \<Rightarrow>
          let legend_title = (if legend_title = ObjNone then ObjStr column_name else legend_title)
          in (case py_iter tooltip_columns of
                Inl e \<Rightarrow> Inl e
              | Inr cols \<Rightarrow>
                  let base = \<lparr> chart_data = topo_data,
                               mark_type = ''geoshape'',
                               mark_stroke = None,
                               mark_strokeWidth = None,
                               encode_color = Some (Color \<lparr> shorthand = column_name @ '':'' @ data_type,
                                                            legend_title_of = legend_title,
                                                            scale_scheme = scheme \<rparr>),
                               encode_opacity = None,
                               encode_tooltip = Some (map (\<lambda>column. column @ '':N'') cols),
                               transform = [\<lparr> lookup = ''properties.CODE_INS'',
                                              lookup_from = \<lparr> lookup_frame = data,
                                                              lookup_key = ''niscode'',
                                                              lookup_fields = lookup_columns \<rparr> \<rparr>],
                               width = Some 600,
                               height = Some 450 \<rparr>
                  in Inr (chart_add
                            \<lparr> chart_data = topo_data,
                              mark_type = ''geoshape'',
                              mark_stroke = Some stroke,
                              mark_strokeWidth = Some strokeWidth,
                              encode_color = Some (ColorValue missing_color),
                              encode_opacity = Some float_0_9,
                              encode_tooltip = None,
                              transform = [],
                              width = None,
                              height = None \<rparr>
                            base)))"

definition create_quantitative_plot ::
  "topo \<Rightarrow> dataframe \<Rightarrow> string \<Rightarrow> pyobj \<Rightarrow> pyobj \<Rightarrow> pyobj \<Rightarrow> pyobj \<Rightarrow> pyobj \<Rightarrow> exn + plot"
where
  \<comment> \<open>The call passes nine positional arguments; \<^verbatim>\<open>missing_color\<close> of \<^verbatim>\<open>create_plot\<close>
      keeps its default \<^verbatim>\<open>'white'\<close>.\<close>
  "create_quantitative_plot topo_data data column_name stroke strokeWidth legend_title scheme
                            missing_color =
     create_plot topo_data data column_name ''Q''
                 stroke strokeWidth legend_title scheme missing_color (ObjStr ''white'')"

definition create_nominal_plot ::
  "topo \<Rightarrow> dataframe \<Rightarrow> string \<Rightarrow> pyobj \<Rightarrow> pyobj \<Rightarrow> pyobj \<Rightarrow> pyobj \<Rightarrow> pyobj \<Rightarrow> exn + plot"
where
  "create_nominal_plot topo_data data column_name stroke strokeWidth legend_title scheme
                       missing_color =
     create_plot topo_data data column_name ''N''
                 stroke strokeWidth legend_title scheme missing_color (ObjStr ''white'')"

section \<open>The schema validator\<close>

subsection \<open>The join-key scan\<close>

lemma enumerate_filter_fst:
  "map fst (filter (\<lambda>(idx, x). P x) (enumerate n xs)) =
   filter (\<lambda>i. P (xs ! (i - n))) [n..<n + length xs]"
proof (induction xs arbitrary: n)
  case Nil
  then show ?case by simp
next
  case (Cons x xs)
  have "filter (\<lambda>i. P ((x # xs) ! (i - n))) [Suc n..<Suc n + length xs]
      = filter (\<lambda>i. P (xs ! (i - Suc n))) [Suc n..<Suc n + length xs]"
    by (rule filter_cong) (auto simp: nth_Cons')
  then show ?case using Cons.IH[of "Suc n"]
    by (simp add: upt_conv_Cons del: upt_Suc)
qed

lemma nis_code_scan_text:
  assumes "\<forall>x\<in>set xs. is_text (snd x)"
  shows "nis_code_scan xs = Inr (map fst (filter (\<lambda>(idx, col_name). is_nis_code col_name) xs))"
  using assms
proof (induction xs)
  case Nil
  then show ?case by simp
next
  case (Cons x xs)
  obtain idx col_name where x: "x = (idx, col_name)" by (cases x)
  from Cons.prems x obtain s where s: "col_name = StrLabel s" by (cases col_name) auto
  from Cons show ?case by (simp add: x s)
qed

lemma nis_code_scan_not_text:
  assumes "\<exists>x\<in>set xs. \<not> is_text (snd x)"
  shows "\<exists>type_name. nis_code_scan xs = Inl (no_attribute type_name ''lower'')"
  using assms
proof (induction xs)
  case Nil
  then show ?case by simp
next
  case (Cons x xs)
  obtain idx col_name where x: "x = (idx, col_name)" by (cases x)
  show ?case
  proof (cases col_name)
    case (StrLabel s)
    with Cons.prems x have "\<exists>y\<in>set xs. \<not> is_text (snd y)" by simp
    from Cons.IH[OF this] show ?thesis by (auto simp: x StrLabel)
  next
    case (IntLabel n)
    then show ?thesis by (auto simp: x)
  next
    case (FloatLabel w)
    then show ?thesis by (auto simp: x)
  qed
qed

lemma set_snd_enumerate: "snd ` set (enumerate n xs) = set xs"
proof -
  have "snd ` set (enumerate n xs) = set (map snd (enumerate n xs))"
    by (rule set_map[symmetric])
  then show ?thesis by simp
qed

lemma nis_code_pos_text:
  assumes "\<forall>c\<in>set data. is_text (fst c)"
  shows "nis_code_pos data =
         Inr (filter (\<lambda>i. is_nis_code (fst (data ! i))) [0..<length data])"
proof -
  have "\<forall>x\<in>set (enumerate 0 (columns data)). is_text (snd x)"
    using assms set_snd_enumerate[of 0 "columns data"] by (force simp: columns_def)
  then have "nis_code_pos data =
        Inr (map fst (filter (\<lambda>(idx, col_name). is_nis_code col_name)
                             (enumerate 0 (columns data))))"
    unfolding nis_code_pos_def by (rule nis_code_scan_text)
  also have "map fst (filter (\<lambda>(idx, col_name). is_nis_code col_name)
                             (enumerate 0 (columns data)))
      = filter (\<lambda>i. is_nis_code (columns data ! (i - 0))) [0..<0 + length (columns data)]"
    by (rule enumerate_filter_fst)
  also have "\<dots> = filter (\<lambda>i. is_nis_code (fst (data ! i))) [0..<length data]"
    by (rule filter_cong) (auto simp: columns_def)
  finally show ?thesis .
qed

lemma nis_code_pos_not_text:
  assumes "\<exists>c\<in>set data. \<not> is_text (fst c)"
  shows "\<exists>type_name. nis_code_pos data = Inl (no_attribute type_name ''lower'')"
proof -
  have "\<exists>x\<in>set (enumerate 0 (columns data)). \<not> is_text (snd x)"
    using assms set_snd_enumerate[of 0 "columns data"] by (force simp: columns_def)
  then show ?thesis unfolding nis_code_pos_def by (rule nis_code_scan_not_text)
qed

lemma nis_code_pos_InrD:
  assumes "nis_code_pos data = Inr pos"
  shows "(\<forall>c\<in>set data. is_text (fst c)) \<and>
         pos = filter (\<lambda>i. is_nis_code (fst (data ! i))) [0..<length data]"
proof (cases "\<forall>c\<in>set data. is_text (fst c)")
  case True
  from nis_code_pos_text[OF True] assms True show ?thesis by simp
next
  case False
  then have "\<exists>c\<in>set data. \<not> is_text (fst c)" by simp
  from nis_code_pos_not_text[OF this] assms show ?thesis by auto
qed

lemma length_filter_nth:
  "length (filter (\<lambda>i. P (xs ! i)) [0..<length xs]) = length (filter P xs)"
proof -
  have "filter P (map ((!) xs) [0..<length xs])
        = map ((!) xs) (filter (P \<circ> (!) xs) [0..<length xs])"
    by (rule filter_map)
  then have "filter P xs = map ((!) xs) (filter (\<lambda>i. P (xs ! i)) [0..<length xs])"
    by (simp only: map_nth comp_def)
  then have "length (filter P xs)
             = length (map ((!) xs) (filter (\<lambda>i. P (xs ! i)) [0..<length xs]))"
    by (rule arg_cong)
  then show ?thesis by simp
qed

lemma filter_upt_unique:
  assumes "i < n" "P i" "\<forall>j<n. j \<noteq> i \<longrightarrow> \<not> P j"
  shows "filter P [0..<n] = [i]"
proof -
  have "[0..<n] = [0..<i] @ i # [Suc i..<n]"
    using assms(1) upt_add_eq_append[of 0 i "n - i"] by (simp add: upt_conv_Cons)
  moreover have "filter P [0..<i] = []" using assms by (auto simp: filter_empty_conv)
  moreover have "filter P [Suc i..<n] = []" using assms by (auto simp: filter_empty_conv)
  ultimately show ?thesis using assms(2) by simp
qed

lemma filter_upt_singletonD:
  assumes "filter P [0..<n] = [i]"
  shows "i < n \<and> P i \<and> (\<forall>j<n. j \<noteq> i \<longrightarrow> \<not> P j)"
proof -
  have "set (filter P [0..<n]) = {i}" using assms by simp
  then have "{j. j < n \<and> P j} = {i}" by auto
  then show ?thesis by blast
qed

lemma is_nis_code_text: "is_nis_code l \<Longrightarrow> is_text l"
  by (cases l) simp_all

lemma nis_code_pos_unique:
  assumes "i < length data" "is_nis_code (fst (data ! i))"
    "\<forall>j<length data. j \<noteq> i \<longrightarrow> is_text (fst (data ! j)) \<and> \<not> is_nis_code (fst (data ! j))"
  shows "nis_code_pos data = Inr [i]"
proof -
  have "\<forall>c\<in>set data. is_text (fst c)"
  proof
    fix c assume "c \<in> set data"
    then obtain j where j: "j < length data" "c = data ! j" by (auto simp: in_set_conv_nth)
    show "is_text (fst c)"
      using assms(2,3) j is_nis_code_text by (cases "j = i") auto
  qed
  from nis_code_pos_text[OF this]
  have "nis_code_pos data = Inr (filter (\<lambda>i. is_nis_code (fst (data ! i))) [0..<length data])" .
  moreover have "filter (\<lambda>i. is_nis_code (fst (data ! i))) [0..<length data] = [i]"
    using assms by (intro filter_upt_unique) auto
  ultimately show ?thesis by simp
qed

lemma nis_code_pos_singleD:
  assumes "nis_code_pos data = Inr [i]"
  shows "i < length data \<and> is_nis_code (fst (data ! i)) \<and>
         (\<forall>j<length data. j \<noteq> i \<longrightarrow>
            is_text (fst (data ! j)) \<and> \<not> is_nis_code (fst (data ! j)))"
proof -
  from nis_code_pos_InrD[OF assms]
  have t: "\<forall>c\<in>set data. is_text (fst c)"
    and f: "filter (\<lambda>i. is_nis_code (fst (data ! i))) [0..<length data] = [i]" by simp_all
  from filter_upt_singletonD[OF f] t show ?thesis by (auto simp: all_set_conv_all_nth)
qed

subsection \<open>The outcomes of a validation\<close>

lemma lower_niscode: "lower ''niscode'' = ''niscode''"
  by code_simp

lemma zip_update_columns:
  "zip ((columns data)[i := name]) (map snd data) = data[i := (name, snd (data ! i))]"
proof (rule nth_equalityI)
  show "length (zip ((columns data)[i := name]) (map snd data))
        = length (data[i := (name, snd (data ! i))])"
    by (simp add: columns_def)
next
  fix k assume "k < length (zip ((columns data)[i := name]) (map snd data))"
  then have k: "k < length data" by (simp add: columns_def)
  then show "zip ((columns data)[i := name]) (map snd data) ! k
             = data[i := (name, snd (data ! i))] ! k"
    by (cases "k = i") (simp_all add: columns_def prod_eq_iff)
qed

lemma filter_nth_unique:
  assumes "i < length xs" "P (xs ! i)" "\<forall>j<length xs. j \<noteq> i \<longrightarrow> \<not> P (xs ! j)"
  shows "filter P xs = [xs ! i]"
proof -
  have "filter P (map ((!) xs) [0..<length xs])
        = map ((!) xs) (filter (P \<circ> (!) xs) [0..<length xs])"
    by (rule filter_map)
  then have "filter P xs = map ((!) xs) (filter (\<lambda>k. P (xs ! k)) [0..<length xs])"
    by (simp only: map_nth comp_def)
  also have "filter (\<lambda>k. P (xs ! k)) [0..<length xs] = [i]"
    using assms by (intro filter_upt_unique) auto
  finally show ?thesis by simp
qed

lemma getattr_dtype_renamed:
  assumes "i < length data"
    "\<forall>j<length data. j \<noteq> i \<longrightarrow> \<not> is_nis_code (fst (data ! j))"
  shows "getattr_dtype (data[i := (StrLabel ''niscode'', s)]) ''niscode'' = Inr (dtype_of s)"
proof -
  let ?d = "data[i := (StrLabel ''niscode'', s)]"
  have "filter (\<lambda>c. fst c = StrLabel ''niscode'') ?d = [?d ! i]"
  proof (rule filter_nth_unique)
    show "i < length ?d" using assms(1) by simp
    show "fst (?d ! i) = StrLabel ''niscode''" using assms(1) by simp
    show "\<forall>j<length ?d. j \<noteq> i \<longrightarrow> fst (?d ! j) \<noteq> StrLabel ''niscode''"
    proof (intro allI impI notI)
      fix j assume j: "j < length ?d" "j \<noteq> i" and eq: "fst (?d ! j) = StrLabel ''niscode''"
      then have "fst (data ! j) = StrLabel ''niscode''" by simp
      then have "is_nis_code (fst (data ! j))" by (simp add: lower_niscode)
      with assms(2) j show False by simp
    qed
  qed
  then show ?thesis using assms(1) by (simp add: getattr_dtype_def)
qed

lemma validate_data_unique:
  assumes "2 \<le> length data" "i < length data" "is_nis_code (fst (data ! i))"
    "\<forall>j<length data. j \<noteq> i \<longrightarrow> is_text (fst (data ! j)) \<and> \<not> is_nis_code (fst (data ! j))"
  shows "validate_data data =
         (if dtype_of (snd (data ! i)) \<noteq> np_int64 then Inl InvalidJoinKeyType else Inr (),
          data[i := (StrLabel ''niscode'', snd (data ! i))])"
proof -
  have pos: "nis_code_pos data = Inr [i]" using assms(2-4) by (rule nis_code_pos_unique)
  have sc: "set_columns data ((columns data)[i := StrLabel ''niscode''])
            = Inr (data[i := (StrLabel ''niscode'', snd (data ! i))])"
    by (simp add: set_columns_def zip_update_columns) (simp add: columns_def)
  have ga: "getattr_dtype (data[i := (StrLabel ''niscode'', snd (data ! i))]) ''niscode''
            = Inr (dtype_of (snd (data ! i)))"
    using assms(2,4) by (intro getattr_dtype_renamed) auto
  show ?thesis using assms(1)
    unfolding validate_data_def by (simp add: pos sc ga) (simp add: columns_def)
qed

lemma exn_distinct:
  "InsufficientColumns \<noteq> AmbiguousJoinKey" "InsufficientColumns \<noteq> MissingJoinKey"
  "InsufficientColumns \<noteq> InvalidJoinKeyType" "AmbiguousJoinKey \<noteq> MissingJoinKey"
  "AmbiguousJoinKey \<noteq> InvalidJoinKeyType" "MissingJoinKey \<noteq> InvalidJoinKeyType"
  "no_attribute type_name attr \<noteq> InsufficientColumns"
  "no_attribute type_name attr \<noteq> MissingJoinKey"
  "no_attribute type_name attr \<noteq> AmbiguousJoinKey"
  "no_attribute type_name attr \<noteq> InvalidJoinKeyType"
  by (simp_all add: InsufficientColumns_def AmbiguousJoinKey_def MissingJoinKey_def
        InvalidJoinKeyType_def no_attribute_def)

lemma validate_data_few:
  "length data < 2 \<Longrightarrow> validate_data data = (Inl InsufficientColumns, data)"
  by (simp add: validate_data_def columns_def)

lemma validate_data_scan_error:
  "2 \<le> length data \<Longrightarrow> nis_code_pos data = Inl e \<Longrightarrow> validate_data data = (Inl e, data)"
  by (simp add: validate_data_def columns_def)

lemma validate_data_none:
  "2 \<le> length data \<Longrightarrow> nis_code_pos data = Inr [] \<Longrightarrow>
   validate_data data = (Inl MissingJoinKey, data)"
  by (simp add: validate_data_def columns_def)

lemma validate_data_many:
  "2 \<le> length data \<Longrightarrow> nis_code_pos data = Inr pos \<Longrightarrow> 1 < length pos \<Longrightarrow>
   validate_data data = (Inl AmbiguousJoinKey, data)"
  by (simp add: validate_data_def columns_def)

lemma validate_data_one:
  assumes "2 \<le> length data" "nis_code_pos data = Inr [i]"
  shows "i < length data \<and> is_nis_code (fst (data ! i)) \<and>
         validate_data data =
           (if dtype_of (snd (data ! i)) \<noteq> np_int64 then Inl InvalidJoinKeyType else Inr (),
            data[i := (StrLabel ''niscode'', snd (data ! i))])"
proof -
  from nis_code_pos_singleD[OF assms(2)] have
    i: "i < length data" "is_nis_code (fst (data ! i))"
       "\<forall>j<length data. j \<noteq> i \<longrightarrow>
          is_text (fst (data ! j)) \<and> \<not> is_nis_code (fst (data ! j))"
    by simp_all
  from validate_data_unique[OF assms(1) i] i(1,2) show ?thesis by simp
qed

lemma validate_data_cases:
  obtains (few) "length data < 2"
  | (scan_error) type_name where "2 \<le> length data"
      "nis_code_pos data = Inl (no_attribute type_name ''lower'')"
  | (none) "2 \<le> length data" "nis_code_pos data = Inr []"
  | (many) pos where "2 \<le> length data" "nis_code_pos data = Inr pos" "1 < length pos"
  | (one) i where "2 \<le> length data" "nis_code_pos data = Inr [i]"
proof (cases "length data < 2")
  case True
  then show ?thesis by (rule few)
next
  case len: False
  show ?thesis
  proof (cases "nis_code_pos data")
    case (Inl e)
    have "\<exists>c\<in>set data. \<not> is_text (fst c)"
      using nis_code_pos_text[of data] Inl by auto
    from nis_code_pos_not_text[OF this] Inl len show ?thesis by (auto intro: scan_error)
  next
    case (Inr pos)
    consider "pos = []" | i where "pos = [i]" | "1 < length pos"
      by (cases pos rule: list.exhaust; cases "tl pos") auto
    then show ?thesis
    proof cases
      case 1
      with Inr len show ?thesis by (auto intro: none)
    next
      case 2
      with Inr len show ?thesis by (auto intro: one)
    next
      case 3
      with Inr len show ?thesis by (auto intro: many)
    qed
  qed
qed

subsection \<open>Structural errors\<close>

text \<open>
  On a frame whose labels are all text, each of the three structural errors is raised
  under its condition and under no other: \<open>InsufficientColumns\<close> for fewer than two
  columns, whatever their names (the count is checked before the names are scanned), and,
  with at least two columns, \<open>MissingJoinKey\<close> for no label that lower-cases to
  \<^verbatim>\<open>niscode\<close> and \<open>AmbiguousJoinKey\<close> for more than one.
\<close>

lemma validate_data_structural_errors_text:
  assumes "\<forall>c\<in>set data. is_text (fst c)"
  shows "(fst (validate_data data) = Inl InsufficientColumns \<longleftrightarrow> length (columns data) < 2) \<and>
   (fst (validate_data data) = Inl MissingJoinKey \<longleftrightarrow>
      2 \<le> length (columns data) \<and> length (filter is_nis_code (columns data)) = 0) \<and>
   (fst (validate_data data) = Inl AmbiguousJoinKey \<longleftrightarrow>
      2 \<le> length (columns data) \<and> 1 < length (filter is_nis_code (columns data)))"
proof -
  have len: "length (columns data) = length data" by (simp add: columns_def)
  have cnt: "nis_code_pos data = Inr pos \<Longrightarrow>
             length (filter is_nis_code (columns data)) = length pos" for pos
  proof -
    assume "nis_code_pos data = Inr pos"
    from nis_code_pos_InrD[OF this]
    have "pos = filter (\<lambda>i. is_nis_code (fst (data ! i))) [0..<length data]" by simp
    also have "\<dots> = filter (\<lambda>i. is_nis_code (columns data ! i)) [0..<length (columns data)]"
      by (rule filter_cong) (auto simp: columns_def)
    finally show ?thesis by (simp add: length_filter_nth)
  qed
  show ?thesis
  proof (cases data rule: validate_data_cases)
    case few
    then show ?thesis using validate_data_few[OF few] by (simp add: len exn_distinct)
  next
    case (scan_error type_name)
    then show ?thesis using nis_code_pos_text[OF assms] by simp
  next
    case none
    then show ?thesis
      using validate_data_none[OF none] cnt[OF none(2)] exn_distinct by (simp add: len)
  next
    case (many pos)
    then have "pos \<noteq> []" by auto
    then show ?thesis
      using many validate_data_many[OF many] cnt[OF many(2)] exn_distinct by (simp add: len)
  next
    case (one i)
    then show ?thesis
      using validate_data_one[OF one] cnt[OF one(2)] exn_distinct by (simp add: len)
  qed
qed

text \<open>
  Claim C1 fails on the code. The scan calls \<^verbatim>\<open>lower\<close> on every label, and a label
  read from a numeric header cell has no such method. A frame with the two columns 2020 and
  2021 has at least two columns and no label matching \<^verbatim>\<open>niscode\<close>; the claim has it
  fail with \<open>MissingJoinKey\<close>, the call raises the AttributeError of the first label
  instead, the frame untouched.
\<close>

theorem validate_data_numeric_labels:
  "length (columns [(IntLabel 2020, Int64Series [1]), (IntLabel 2021, Int64Series [2])]) = 2 \<and>
   length (filter is_nis_code
      (columns [(IntLabel 2020, Int64Series [1]), (IntLabel 2021, Int64Series [2])])) = 0 \<and>
   validate_data [(IntLabel 2020, Int64Series [1]), (IntLabel 2021, Int64Series [2])]
     = (Inl (no_attribute ''int'' ''lower''),
        [(IntLabel 2020, Int64Series [1]), (IntLabel 2021, Int64Series [2])]) \<and>
   fst (validate_data [(IntLabel 2020, Int64Series [1]), (IntLabel 2021, Int64Series [2])])
     \<noteq> Inl MissingJoinKey"
proof -
  let ?d = "[(IntLabel 2020, Int64Series [1]), (IntLabel 2021, Int64Series [2])]"
  have "nis_code_pos ?d = Inl (no_attribute ''int'' ''lower'')"
    by (simp add: nis_code_pos_def columns_def enumerate_simps)
  then have "validate_data ?d = (Inl (no_attribute ''int'' ''lower''), ?d)"
    by (intro validate_data_scan_error) simp_all
  then show ?thesis using exn_distinct(8)[of "''int''" "''lower''"] by (simp add: columns_def)
qed

subsection \<open>Renaming the join key\<close>

text \<open>
  Claim C2 as stated fails on a frame with a single column: its one column name matches
  \<^verbatim>\<open>niscode\<close>, yet the column count is checked first, the call raises
  \<open>InsufficientColumns\<close> and the column keeps its name \<^verbatim>\<open>NisCode\<close>.
\<close>

theorem validate_data_no_rename_counterexample:
  "length [(StrLabel ''NisCode'', Int64Series [1000])] = 1 \<and>
   is_nis_code (fst ([(StrLabel ''NisCode'', Int64Series [1000])] ! 0)) \<and>
   validate_data [(StrLabel ''NisCode'', Int64Series [1000])]
     = (Inl InsufficientColumns, [(StrLabel ''NisCode'', Int64Series [1000])]) \<and>
   columns (snd (validate_data [(StrLabel ''NisCode'', Int64Series [1000])]))
     \<noteq> [StrLabel ''niscode'']"
proof -
  have "lower ''NisCode'' = ''niscode''" by code_simp
  moreover have "validate_data [(StrLabel ''NisCode'', Int64Series [1000])]
     = (Inl InsufficientColumns, [(StrLabel ''NisCode'', Int64Series [1000])])"
    by (rule validate_data_few) simp
  ultimately show ?thesis by (simp add: columns_def)
qed

text \<open>
  Claim C2, amended. For every frame with at least two columns, all labelled with text, in
  which exactly one column name (at position \<open>i\<close>) lower-cases to \<^verbatim>\<open>niscode\<close>, the
  call leaves the frame with that column named \<^verbatim>\<open>niscode\<close> at the same position,
  every other column name as it was (case included), and the values of every column
  unchanged. This holds whether or not the dtype check that follows succeeds.
\<close>

theorem validate_data_renames_join_key:
  assumes "2 \<le> length data" and "i < length data"
    and "is_nis_code (fst (data ! i))"
    and "\<forall>j<length data. j \<noteq> i \<longrightarrow>
           is_text (fst (data ! j)) \<and> \<not> is_nis_code (fst (data ! j))"
  shows "columns (snd (validate_data data)) = (columns data)[i := StrLabel ''niscode''] \<and>
         map snd (snd (validate_data data)) = map snd data"
proof -
  have "snd (validate_data data) = data[i := (StrLabel ''niscode'', snd (data ! i))]"
    using validate_data_unique[OF assms] by simp
  then show ?thesis
    by (simp add: columns_def map_update list_update_same_conv assms(2))
qed

text \<open>
  The rename on a three-column frame whose join key is the middle column.
\<close>

theorem validate_data_renames_join_key_witness:
  "columns (snd (validate_data
      [(StrLabel ''Name'', ObjectSeries [ObjStr ''Antwerp'']),
       (StrLabel ''NisCode'', Int64Series [1000]),
       (StrLabel ''Value'', Int64Series [42])]))
     = [StrLabel ''Name'', StrLabel ''niscode'', StrLabel ''Value''] \<and>
   map snd (snd (validate_data
      [(StrLabel ''Name'', ObjectSeries [ObjStr ''Antwerp'']),
       (StrLabel ''NisCode'', Int64Series [1000]),
       (StrLabel ''Value'', Int64Series [42])]))
     = [ObjectSeries [ObjStr ''Antwerp''], Int64Series [1000], Int64Series [42]]"
proof -
  let ?d = "[(StrLabel ''Name'', ObjectSeries [ObjStr ''Antwerp'']),
             (StrLabel ''NisCode'', Int64Series [1000]),
             (StrLabel ''Value'', Int64Series [42])]"
  have a: "2 \<le> length ?d" and b: "(1::nat) < length ?d" by simp_all
  have l: "lower ''NisCode'' = ''niscode''" by code_simp
  have c: "is_nis_code (fst (?d ! 1))" using l by simp
  have n0: "lower ''Name'' \<noteq> ''niscode''" and n2: "lower ''Value'' \<noteq> ''niscode''"
    by code_simp+
  have d: "\<forall>j<length ?d. j \<noteq> 1 \<longrightarrow>
             is_text (fst (?d ! j)) \<and> \<not> is_nis_code (fst (?d ! j))"
    using n0 n2 by (simp add: less_Suc_eq numeral_3_eq_3)
  show ?thesis
    using validate_data_renames_join_key[OF a b c d] by (simp add: columns_def)
qed

subsection \<open>The dtype of the join key\<close>

lemma not_all_int64_dtype:
  "\<exists>v\<in>set (values_of s). \<not> is_int64 v \<Longrightarrow> dtype_of s \<noteq> np_int64"
  by (cases s) auto

text \<open>
  Claim C3. For every frame that passes the column count and the scan with exactly one
  join-key column (at position \<open>i\<close>; the scan completes only when every label is text),
  the call raises \<open>InvalidJoinKeyType\<close> exactly when the dtype of that column is not
  \<open>int64\<close>, and returns normally exactly when it is. In particular it raises whenever some
  value of the column is not a 64-bit integer: a float column, a text (object) column and a
  column holding a null are all rejected, also when their values could be converted to
  integers. The test is on the column's dtype, so a column of another dtype is rejected
  even when it is empty.
\<close>

theorem validate_data_join_key_type:
  assumes "2 \<le> length data" and "i < length data"
    and "is_nis_code (fst (data ! i))"
    and "\<forall>j<length data. j \<noteq> i \<longrightarrow>
           is_text (fst (data ! j)) \<and> \<not> is_nis_code (fst (data ! j))"
  shows "(fst (validate_data data) = Inl InvalidJoinKeyType
            \<longleftrightarrow> dtype_of (snd (data ! i)) \<noteq> np_int64) \<and>
         (fst (validate_data data) = Inr ()
            \<longleftrightarrow> dtype_of (snd (data ! i)) = np_int64) \<and>
         ((\<exists>v\<in>set (values_of (snd (data ! i))). \<not> is_int64 v)
            \<longrightarrow> fst (validate_data data) = Inl InvalidJoinKeyType)"
  using validate_data_unique[OF assms] not_all_int64_dtype[of "snd (data ! i)"]
  by auto

text \<open>
  The float 1000.0, the text \<^verbatim>\<open>"1000"\<close> and a NaN are rejected; the integer 1000 is
  accepted.
\<close>

theorem validate_data_join_key_type_witness:
  "fst (validate_data
      [(StrLabel ''NisCode'', Float64Series [0x408F400000000000]),
       (StrLabel ''Value'', Int64Series [42])])
     = Inl InvalidJoinKeyType \<and>
   fst (validate_data
      [(StrLabel ''NisCode'', ObjectSeries [ObjStr ''1000'']),
       (StrLabel ''Value'', Int64Series [42])])
     = Inl InvalidJoinKeyType \<and>
   fst (validate_data
      [(StrLabel ''NisCode'', Float64Series [0x7FF8000000000000]),
       (StrLabel ''Value'', Int64Series [42])])
     = Inl InvalidJoinKeyType \<and>
   fst (validate_data
      [(StrLabel ''NisCode'', Int64Series [1000]), (StrLabel ''Value'', Int64Series [42])])
     = Inr ()"
proof -
  have c: "lower ''NisCode'' = ''niscode''" by code_simp
  have n: "lower ''Value'' \<noteq> ''niscode''" by code_simp
  have h: "2 \<le> length [(StrLabel ''NisCode'', s), (StrLabel ''Value'', t)]"
    "(0::nat) < length [(StrLabel ''NisCode'', s), (StrLabel ''Value'', t)]"
    "is_nis_code (fst ([(StrLabel ''NisCode'', s), (StrLabel ''Value'', t)] ! 0))"
    "\<forall>j<length [(StrLabel ''NisCode'', s), (StrLabel ''Value'', t)]. j \<noteq> 0 \<longrightarrow>
        is_text (fst ([(StrLabel ''NisCode'', s), (StrLabel ''Value'', t)] ! j)) \<and>
        \<not> is_nis_code (fst ([(StrLabel ''NisCode'', s), (StrLabel ''Value'', t)] ! j))"
    for s t :: series
    using c n by (simp_all add: less_Suc_eq numeral_2_eq_2)
  show ?thesis
    using validate_data_join_key_type[OF h, of "Float64Series [0x408F400000000000]" "Int64Series [42]"]
      validate_data_join_key_type[OF h, of "ObjectSeries [ObjStr ''1000'']" "Int64Series [42]"]
      validate_data_join_key_type[OF h, of "Float64Series [0x7FF8000000000000]" "Int64Series [42]"]
      validate_data_join_key_type[OF h, of "Int64Series [1000]" "Int64Series [42]"]
    by simp
qed

subsection \<open>The frame after a failed validation\<close>

lemma validate_data_float_key:
  "validate_data
      [(StrLabel ''NisCode'', Float64Series [0x408F400000000000]),
       (StrLabel ''Value'', Int64Series [42])]
   = (Inl InvalidJoinKeyType,
      [(StrLabel ''niscode'', Float64Series [0x408F400000000000]),
       (StrLabel ''Value'', Int64Series [42])])"
proof -
  let ?d = "[(StrLabel ''NisCode'', Float64Series [0x408F400000000000]),
             (StrLabel ''Value'', Int64Series [42])]"
  have c: "lower ''NisCode'' = ''niscode''" by code_simp
  have n: "lower ''Value'' \<noteq> ''niscode''" by code_simp
  have "validate_data ?d =
         (if dtype_of (snd (?d ! 0)) \<noteq> np_int64 then Inl InvalidJoinKeyType else Inr (),
          ?d[0 := (StrLabel ''niscode'', snd (?d ! 0))])"
    using c n by (intro validate_data_unique) (simp_all add: less_Suc_eq numeral_2_eq_2)
  then show ?thesis by simp
qed

text \<open>
  Claim C4 as stated fails: the rename is made in place before the dtype is checked. On a
  frame whose join key \<^verbatim>\<open>NisCode\<close> is a float column the call raises
  \<open>InvalidJoinKeyType\<close> and leaves the column renamed to \<^verbatim>\<open>niscode\<close>.
\<close>

theorem validate_data_partial_state_counterexample:
  "fst (validate_data
      [(StrLabel ''NisCode'', Float64Series [0x408F400000000000]),
       (StrLabel ''Value'', Int64Series [42])])
     = Inl InvalidJoinKeyType \<and>
   snd (validate_data
      [(StrLabel ''NisCode'', Float64Series [0x408F400000000000]),
       (StrLabel ''Value'', Int64Series [42])])
     = [(StrLabel ''niscode'', Float64Series [0x408F400000000000]),
        (StrLabel ''Value'', Int64Series [42])] \<and>
   snd (validate_data
      [(StrLabel ''NisCode'', Float64Series [0x408F400000000000]),
       (StrLabel ''Value'', Int64Series [42])])
     \<noteq> [(StrLabel ''NisCode'', Float64Series [0x408F400000000000]),
         (StrLabel ''Value'', Int64Series [42])]"
  by (simp add: validate_data_float_key)

text \<open>
  Claim C4, amended. Whenever the call raises, the values of every column are unchanged.
  If the error is not \<open>InvalidJoinKeyType\<close>, it is one of \<open>InsufficientColumns\<close>,
  \<open>MissingJoinKey\<close> and \<open>AmbiguousJoinKey\<close>, or the AttributeError of a label that is
  not text, and the frame is exactly as it was. If the error is \<open>InvalidJoinKeyType\<close>,
  the join-key column has already been renamed to \<^verbatim>\<open>niscode\<close> in the caller's frame;
  nothing else has changed.
\<close>

theorem validate_data_failure_state:
  assumes "fst (validate_data data) = Inl e"
  shows "map snd (snd (validate_data data)) = map snd data \<and>
         (e \<noteq> InvalidJoinKeyType \<longrightarrow>
            (e \<in> {InsufficientColumns, MissingJoinKey, AmbiguousJoinKey} \<or>
             (\<exists>type_name. e = no_attribute type_name ''lower'')) \<and>
            snd (validate_data data) = data) \<and>
         (e = InvalidJoinKeyType \<longrightarrow>
            (\<exists>i<length data. is_nis_code (fst (data ! i)) \<and>
               columns (snd (validate_data data)) = (columns data)[i := StrLabel ''niscode'']))"
proof (cases data rule: validate_data_cases)
  case few
  then show ?thesis using assms validate_data_few[OF few] exn_distinct by auto
next
  case (scan_error type_name)
  then show ?thesis
    using assms validate_data_scan_error[OF scan_error] exn_distinct(10)[of type_name "''lower''"]
    by auto
next
  case none
  then show ?thesis using assms validate_data_none[OF none] exn_distinct by auto
next
  case (many pos)
  then show ?thesis using assms validate_data_many[OF many] exn_distinct by auto
next
  case (one i)
  from validate_data_one[OF one] have
    i: "i < length data" "is_nis_code (fst (data ! i))" and
    v: "validate_data data =
           (if dtype_of (snd (data ! i)) \<noteq> np_int64 then Inl InvalidJoinKeyType else Inr (),
            data[i := (StrLabel ''niscode'', snd (data ! i))])" by simp_all
  have e: "e = InvalidJoinKeyType" using assms v by (auto split: if_splits)
  have m: "map snd (data[i := (StrLabel ''niscode'', snd (data ! i))]) = map snd data"
    by (simp add: map_update list_update_same_conv i(1))
  have c: "columns (data[i := (StrLabel ''niscode'', snd (data ! i))])
           = (columns data)[i := StrLabel ''niscode'']"
    by (simp add: columns_def map_update)
  show ?thesis using e i v m c by auto
qed

text \<open>
  A one-column frame is left as it was; a frame with a float join key keeps its values.
\<close>

theorem validate_data_failure_state_witness:
  "snd (validate_data [(StrLabel ''NisCode'', Int64Series [1000])])
     = [(StrLabel ''NisCode'', Int64Series [1000])] \<and>
   map snd (snd (validate_data
      [(StrLabel ''NisCode'', Float64Series [0x408F400000000000]),
       (StrLabel ''Value'', Int64Series [42])]))
     = [Float64Series [0x408F400000000000], Int64Series [42]]"
proof -
  have a: "fst (validate_data [(StrLabel ''NisCode'', Int64Series [1000])])
           = Inl InsufficientColumns"
    using validate_data_few[of "[(StrLabel ''NisCode'', Int64Series [1000])]"] by simp
  have b: "fst (validate_data
      [(StrLabel ''NisCode'', Float64Series [0x408F400000000000]),
       (StrLabel ''Value'', Int64Series [42])])
     = Inl InvalidJoinKeyType"
    by (simp add: validate_data_float_key)
  show ?thesis
    using validate_data_failure_state[OF a] validate_data_failure_state[OF b] exn_distinct
    by simp
qed

section \<open>The tabular reader\<close>

lemma endswith_append: "endswith s suf \<longleftrightarrow> (\<exists>p. s = p @ suf)"
proof
  assume "endswith s suf"
  then have "s = take (length s - length suf) s @ suf"
    by (simp add: endswith_def) (metis append_take_drop_id)
  then show "\<exists>p. s = p @ suf" ..
next
  assume "\<exists>p. s = p @ suf"
  then show "endswith s suf" by (auto simp: endswith_def)
qed

lemma endswith_csv_not_xlsx: "endswith s ''.csv'' \<Longrightarrow> \<not> endswith s ''.xlsx''"
  by (auto simp: endswith_append)

text \<open>
  Claim C8. Both entry points look only at the lower-cased name. A name ending in
  \<^verbatim>\<open>.csv\<close> goes to the delimited-text parser with the encoding and delimiter supplied;
  a name ending in \<^verbatim>\<open>.xlsx\<close> goes to the spreadsheet parser, which receives neither;
  any other name raises \<open>UnsupportedFormat\<close>, whose message contains the name.
  \<^verbatim>\<open>read_data\<close> hands the parser the path, \<^verbatim>\<open>read_file\<close> the byte buffer; the
  dispatch is the same.
\<close>

theorem read_dispatch:
  "(endswith (lower name) ''.csv'' \<longrightarrow>
      read_data pd_read_csv pd_read_excel name encoding delimiter
        = pd_read_csv (Path name) encoding delimiter \<and>
      read_file pd_read_csv pd_read_excel name byte_stream encoding delimiter
        = pd_read_csv (BytesIO byte_stream) encoding delimiter) \<and>
   (endswith (lower name) ''.xlsx'' \<longrightarrow>
      read_data pd_read_csv pd_read_excel name encoding delimiter
        = pd_read_excel (Path name) \<and>
      read_file pd_read_csv pd_read_excel name byte_stream encoding delimiter
        = pd_read_excel (BytesIO byte_stream)) \<and>
   (\<not> endswith (lower name) ''.csv'' \<and> \<not> endswith (lower name) ''.xlsx'' \<longrightarrow>
      read_data pd_read_csv pd_read_excel name encoding delimiter
        = Inl (UnsupportedFormat name) \<and>
      read_file pd_read_csv pd_read_excel name byte_stream encoding delimiter
        = Inl (UnsupportedFormat name) \<and>
      (\<exists>before after. UnsupportedFormat name = ValueError (before @ name @ after)))"
proof -
  have "\<exists>before after. UnsupportedFormat name = ValueError (before @ name @ after)"
    unfolding UnsupportedFormat_def
    by (rule exI[of _ "''file type of '' @ [CHR 0x22, CHR 0x22]"],
        rule exI[of _ "[CHR 0x22, CHR 0x22] @ '' is unknown''"]) simp
  then show ?thesis
    using endswith_csv_not_xlsx[of "lower name"]
    by (auto simp: read_data_def read_file_def)
qed

text \<open>
  An upper-case \<^verbatim>\<open>.CSV\<close>, a mixed-case \<^verbatim>\<open>.Xlsx\<close> and an unsupported
  \<^verbatim>\<open>.txt\<close>.
\<close>

theorem read_dispatch_witness:
  "read_data (\<lambda>src enc del. Inr [(StrLabel ''csv'', ObjectSeries [])]) (\<lambda>src. Inr [(StrLabel ''xlsx'', ObjectSeries [])])
      ''DATA.CSV'' (Some ''iso-8859-1'') (Some '';'') = Inr [(StrLabel ''csv'', ObjectSeries [])] \<and>
   read_file (\<lambda>src enc del. Inr [(StrLabel ''csv'', ObjectSeries [])]) (\<lambda>src. Inr [(StrLabel ''xlsx'', ObjectSeries [])])
      ''table.Xlsx'' [] (Some ''iso-8859-1'') (Some '';'') = Inr [(StrLabel ''xlsx'', ObjectSeries [])] \<and>
   read_data (\<lambda>src enc del. Inr [(StrLabel ''csv'', ObjectSeries [])]) (\<lambda>src. Inr [(StrLabel ''xlsx'', ObjectSeries [])])
      ''notes.txt'' None None = Inl (UnsupportedFormat ''notes.txt'')"
proof -
  have a: "endswith (lower ''DATA.CSV'') ''.csv''" by code_simp
  have b: "endswith (lower ''table.Xlsx'') ''.xlsx''" by code_simp
  have c: "\<not> endswith (lower ''notes.txt'') ''.csv'' \<and> \<not> endswith (lower ''notes.txt'') ''.xlsx''"
    by code_simp
  show ?thesis
    using a b c
      read_dispatch[of "''DATA.CSV''" "\<lambda>src enc del. Inr [(StrLabel ''csv'', ObjectSeries [])]"
        "\<lambda>src. Inr [(StrLabel ''xlsx'', ObjectSeries [])]" "Some ''iso-8859-1''" "Some '';''" "[]"]
      read_dispatch[of "''table.Xlsx''" "\<lambda>src enc del. Inr [(StrLabel ''csv'', ObjectSeries [])]"
        "\<lambda>src. Inr [(StrLabel ''xlsx'', ObjectSeries [])]" "Some ''iso-8859-1''" "Some '';''" "[]"]
      read_dispatch[of "''notes.txt''" "\<lambda>src enc del. Inr [(StrLabel ''csv'', ObjectSeries [])]"
        "\<lambda>src. Inr [(StrLabel ''xlsx'', ObjectSeries [])]" None None "[]"]
    by blast
qed

section \<open>The plot builder\<close>

lemma py_iter_Inr_iff:
  "(\<exists>cols. py_iter v = Inr cols) \<longleftrightarrow> (\<exists>s. v = ObjStr s) \<or> (\<exists>xs. v = ObjList xs)"
  by (cases v) simp_all

lemma py_iter_None: "py_iter v = Inr cols \<Longrightarrow> v \<noteq> ObjNone"
  by (cases v) simp_all

lemma create_plot_iterable:
  assumes "py_iter tooltip_columns = Inr cols"
  shows "create_plot topo_data data column_name data_type tooltip_columns stroke strokeWidth
           legend_title scheme missing_color =
         Inr (LayerChart
           [\<lparr> chart_data = topo_data, mark_type = ''geoshape'',
              mark_stroke = Some stroke, mark_strokeWidth = Some strokeWidth,
              encode_color = Some (ColorValue missing_color),
              encode_opacity = Some float_0_9, encode_tooltip = None,
              transform = [], width = None, height = None \<rparr>,
            \<lparr> chart_data = topo_data, mark_type = ''geoshape'',
              mark_stroke = None, mark_strokeWidth = None,
              encode_color = Some (Color \<lparr> shorthand = column_name @ '':'' @ data_type,
                 legend_title_of = (if legend_title = ObjNone then ObjStr column_name
                                    else legend_title),
                 scale_scheme = scheme \<rparr>),
              encode_opacity = None,
              encode_tooltip = Some (map (\<lambda>column. column @ '':N'') cols),
              transform = [\<lparr> lookup = ''properties.CODE_INS'',
                 lookup_from = \<lparr> lookup_frame = data, lookup_key = ''niscode'',
                                 lookup_fields = column_name # cols \<rparr> \<rparr>],
              width = Some 600, height = Some 450 \<rparr>])"
  using assms py_iter_None[OF assms]
  by (simp add: create_plot_def chart_add_def Let_def)

lemma create_plot_not_iterable:
  assumes "py_iter tooltip_columns = Inl e"
  shows "create_plot topo_data data column_name data_type tooltip_columns stroke strokeWidth
           legend_title scheme missing_color = Inl e"
  using assms by (cases tooltip_columns) (auto simp: create_plot_def)

lemma create_plot_InrD:
  assumes "create_plot topo_data data column_name data_type tooltip_columns stroke strokeWidth
           legend_title scheme missing_color = Inr p"
  shows "\<exists>cols. py_iter tooltip_columns = Inr cols"
proof (cases "py_iter tooltip_columns")
  case (Inl e)
  from create_plot_not_iterable[OF this] assms show ?thesis by simp
next
  case (Inr cols)
  then show ?thesis by blast
qed

text \<open>
  Claim C6. With an empty list of tooltip columns \<^verbatim>\<open>create_plot\<close> returns a
  specification, for every frame and every choice of the other arguments. The tooltip of
  its data layer is the empty list; its colour encoding is present, on the chosen column
  and scale type, with the legend title and the colour scheme.
\<close>

theorem create_plot_empty_tooltip:
  "\<exists>p. create_plot topo_data data column_name data_type (ObjList []) stroke strokeWidth
          legend_title scheme missing_color = Inr p \<and>
        encode_tooltip (layers p ! 1) = Some [] \<and>
        encode_color (layers p ! 1) =
          Some (Color \<lparr> shorthand = column_name @ '':'' @ data_type,
                        legend_title_of = (if legend_title = ObjNone then ObjStr column_name
                                           else legend_title),
                        scale_scheme = scheme \<rparr>)"
  using create_plot_iterable[of "ObjList []" "[]" topo_data data column_name data_type stroke
          strokeWidth legend_title scheme missing_color]
  by simp

text \<open>
  Claim C7. Every specification that \<^verbatim>\<open>create_plot\<close> returns has exactly two layers.
  The first is the outline layer: the boundary data drawn with the stroke and stroke width
  and filled with the missing-data colour, with no lookup. The second is the data layer:
  the same boundary data, coloured by the chosen column and joined to the frame on the
  key \<^verbatim>\<open>niscode\<close>. The order is that of the operands of \<^verbatim>\<open>+\<close>, outline first.
\<close>

theorem create_plot_layer_order:
  assumes "create_plot topo_data data column_name data_type tooltip_columns stroke strokeWidth
           legend_title scheme missing_color = Inr p"
  shows "length (layers p) = 2 \<and>
         layers p ! 0 =
           \<lparr> chart_data = topo_data, mark_type = ''geoshape'',
             mark_stroke = Some stroke, mark_strokeWidth = Some strokeWidth,
             encode_color = Some (ColorValue missing_color),
             encode_opacity = Some float_0_9, encode_tooltip = None,
             transform = [], width = None, height = None \<rparr> \<and>
         chart_data (layers p ! 1) = topo_data \<and>
         mark_stroke (layers p ! 1) = None \<and>
         encode_color (layers p ! 1) =
           Some (Color \<lparr> shorthand = column_name @ '':'' @ data_type,
                         legend_title_of = (if legend_title = ObjNone then ObjStr column_name
                                            else legend_title),
                         scale_scheme = scheme \<rparr>) \<and>
         map lookup (transform (layers p ! 1)) = [''properties.CODE_INS''] \<and>
         map (lookup_key \<circ> lookup_from) (transform (layers p ! 1)) = [''niscode''] \<and>
         map (lookup_frame \<circ> lookup_from) (transform (layers p ! 1)) = [data]"
proof -
  from create_plot_InrD[OF assms] obtain cols where c: "py_iter tooltip_columns = Inr cols"
    by blast
  from create_plot_iterable[OF c] assms show ?thesis by auto
qed

text \<open>
  The frame with columns \<^verbatim>\<open>niscode\<close> and \<^verbatim>\<open>population\<close> and one row.
\<close>

theorem create_plot_layer_order_witness:
  "\<exists>p. create_plot (TopoFeature ''be.json'' ''BE_municipalities'')
          [(StrLabel ''niscode'', Int64Series [11002]),
           (StrLabel ''population'', Int64Series [50000])]
          ''population'' ''Q'' (ObjList []) (ObjStr ''darkgrey'') (ObjFloat float_0_9) ObjNone
          (ObjStr ''reds'') (ObjStr ''white'') = Inr p \<and>
        length (layers p) = 2 \<and>
        encode_color (layers p ! 0) = Some (ColorValue (ObjStr ''white'')) \<and>
        mark_stroke (layers p ! 0) = Some (ObjStr ''darkgrey'') \<and>
        encode_color (layers p ! 1) =
          Some (Color \<lparr> shorthand = ''population:Q'', legend_title_of = ObjStr ''population'',
                        scale_scheme = ObjStr ''reds'' \<rparr>) \<and>
        map (lookup_key \<circ> lookup_from) (transform (layers p ! 1)) = [''niscode'']"
proof -
  obtain p where p: "create_plot (TopoFeature ''be.json'' ''BE_municipalities'')
          [(StrLabel ''niscode'', Int64Series [11002]),
           (StrLabel ''population'', Int64Series [50000])]
          ''population'' ''Q'' (ObjList []) (ObjStr ''darkgrey'') (ObjFloat float_0_9) ObjNone
          (ObjStr ''reds'') (ObjStr ''white'') = Inr p"
    using create_plot_iterable[of "ObjList []" "[]"] by simp
  from create_plot_layer_order[OF p] p show ?thesis by simp
qed

text \<open>
  Claim C9. Called with \<^verbatim>\<open>tooltip_columns\<close> left at \<^verbatim>\<open>None\<close>,
  \<^verbatim>\<open>create_plot\<close> raises the \<open>TypeError\<close> of iterating \<^verbatim>\<open>None\<close> in the
  tooltip comprehension. It returns a specification exactly when \<^verbatim>\<open>tooltip_columns\<close>
  can be iterated: a list (possibly empty) or a string.
\<close>

theorem create_plot_tooltip_none:
  "create_plot topo_data data column_name data_type ObjNone stroke strokeWidth
     legend_title scheme missing_color = Inl (not_iterable ''NoneType'') \<and>
   ((\<exists>p. create_plot topo_data data column_name data_type tooltip_columns stroke strokeWidth
            legend_title scheme missing_color = Inr p)
      \<longleftrightarrow> (\<exists>s. tooltip_columns = ObjStr s) \<or> (\<exists>xs. tooltip_columns = ObjList xs))"
proof -
  have a: "create_plot topo_data data column_name data_type ObjNone stroke strokeWidth
     legend_title scheme missing_color = Inl (not_iterable ''NoneType'')"
    by (rule create_plot_not_iterable) simp
  have b: "(\<exists>p. create_plot topo_data data column_name data_type tooltip_columns stroke strokeWidth
            legend_title scheme missing_color = Inr p)
      \<longleftrightarrow> (\<exists>cols. py_iter tooltip_columns = Inr cols)"
  proof
    assume "\<exists>p. create_plot topo_data data column_name data_type tooltip_columns stroke
              strokeWidth legend_title scheme missing_color = Inr p"
    then show "\<exists>cols. py_iter tooltip_columns = Inr cols"
      using create_plot_InrD by blast
  next
    assume "\<exists>cols. py_iter tooltip_columns = Inr cols"
    then obtain cols where "py_iter tooltip_columns = Inr cols" ..
    from create_plot_iterable[OF this]
    show "\<exists>p. create_plot topo_data data column_name data_type tooltip_columns stroke
              strokeWidth legend_title scheme missing_color = Inr p" by (rule exI)
  qed
  show ?thesis using a b py_iter_Inr_iff[of tooltip_columns] by simp
qed

text \<open>
  The default \<^verbatim>\<open>None\<close> fails and the empty list succeeds, on the same arguments.
\<close>

theorem create_plot_tooltip_none_witness:
  "create_plot (TopoFeature ''be.json'' ''BE_municipalities'')
     [(StrLabel ''niscode'', Int64Series [11002]),
           (StrLabel ''population'', Int64Series [50000])]
     ''population'' ''Q'' ObjNone (ObjStr ''darkgrey'') (ObjFloat float_0_9) ObjNone
     (ObjStr ''reds'') (ObjStr ''white'') = Inl (not_iterable ''NoneType'') \<and>
   (\<exists>p. create_plot (TopoFeature ''be.json'' ''BE_municipalities'')
     [(StrLabel ''niscode'', Int64Series [11002]),
           (StrLabel ''population'', Int64Series [50000])]
     ''population'' ''Q'' (ObjList []) (ObjStr ''darkgrey'') (ObjFloat float_0_9) ObjNone
     (ObjStr ''reds'') (ObjStr ''white'') = Inr p)"
  using create_plot_tooltip_none[of "TopoFeature ''be.json'' ''BE_municipalities''"
      "[(StrLabel ''niscode'', Int64Series [11002]),
           (StrLabel ''population'', Int64Series [50000])]"
      "''population''" "''Q''" "ObjStr ''darkgrey''" "ObjFloat float_0_9" ObjNone
      "ObjStr ''reds''" "ObjStr ''white''" "ObjList []"]
  by simp

text \<open>
  Claim C10. In every specification that \<^verbatim>\<open>create_plot\<close> returns, the tooltip of the
  data layer lists each tooltip column followed by \<^verbatim>\<open>:N\<close>, the code of the nominal
  type, whatever \<^verbatim>\<open>data_type\<close> was chosen for the colour encoding and whatever the
  column holds. The outline layer has no tooltip.
\<close>

theorem create_plot_tooltip_nominal:
  assumes "create_plot topo_data data column_name data_type tooltip_columns stroke strokeWidth
           legend_title scheme missing_color = Inr p"
  shows "DATA_TYPES ''nominal'' = Some ''N'' \<and>
         (\<exists>cols. py_iter tooltip_columns = Inr cols \<and>
            encode_tooltip (layers p ! 1) = Some (map (\<lambda>column. column @ '':N'') cols)) \<and>
         encode_tooltip (layers p ! 0) = None"
proof -
  from create_plot_InrD[OF assms] obtain cols where c: "py_iter tooltip_columns = Inr cols"
    by blast
  from create_plot_iterable[OF c] assms c show ?thesis by (auto simp: DATA_TYPES_def)
qed

text \<open>
  Two integer columns in the tooltip of a quantitative plot are both encoded as nominal.
\<close>

theorem create_plot_tooltip_nominal_witness:
  "\<exists>p. create_plot (TopoFeature ''be.json'' ''BE_municipalities'')
          [(StrLabel ''niscode'', Int64Series [11002]),
           (StrLabel ''population'', Int64Series [50000])]
          ''population'' ''Q'' (ObjList [''population'', ''niscode''])
          (ObjStr ''darkgrey'') (ObjFloat float_0_9) ObjNone
          (ObjStr ''reds'') (ObjStr ''white'') = Inr p \<and>
        encode_tooltip (layers p ! 1) = Some [''population:N'', ''niscode:N'']"
proof -
  obtain p where p: "create_plot (TopoFeature ''be.json'' ''BE_municipalities'')
          [(StrLabel ''niscode'', Int64Series [11002]),
           (StrLabel ''population'', Int64Series [50000])]
          ''population'' ''Q'' (ObjList [''population'', ''niscode''])
          (ObjStr ''darkgrey'') (ObjFloat float_0_9) ObjNone
          (ObjStr ''reds'') (ObjStr ''white'') = Inr p"
    using create_plot_iterable[of "ObjList [''population'', ''niscode'']"
            "[''population'', ''niscode'']"] by simp
  from create_plot_tooltip_nominal[OF p] p show ?thesis by simp
qed

lemma create_plot_stroke:
  assumes "create_plot topo_data data column_name data_type tooltip_columns stroke strokeWidth
           legend_title scheme missing_color = Inr p"
  shows "mark_stroke (layers p ! 0) = Some stroke"
proof -
  from create_plot_InrD[OF assms] obtain cols where c: "py_iter tooltip_columns = Inr cols"
    by blast
  from create_plot_iterable[OF c] assms show ?thesis by auto
qed

text \<open>
  Claim C5 fails on the code. \<^verbatim>\<open>create_quantitative_plot\<close> and
  \<^verbatim>\<open>create_nominal_plot\<close> pass their arguments to \<^verbatim>\<open>create_plot\<close> by position, and
  \<^verbatim>\<open>create_plot\<close> has \<^verbatim>\<open>tooltip_columns\<close> in fifth place: every argument after the
  scale type lands one parameter early. Called with its own defaults, the quantitative
  entry point builds a specification whose stroke is the number 0.5, whose stroke width is
  \<^verbatim>\<open>None\<close>, whose legend title is \<^verbatim>\<open>reds\<close>, whose colour scheme is
  \<^verbatim>\<open>white\<close> and whose tooltip lists the letters of \<^verbatim>\<open>lightgrey\<close>. It differs
  from what \<^verbatim>\<open>create_plot\<close> returns for the same stroke, stroke width, legend title,
  scheme and missing colour, whatever tooltip columns are given.
\<close>

theorem create_quantitative_plot_shifts_arguments:
  "create_quantitative_plot topo_data data ''population''
      (ObjStr ''lightgrey'') (ObjFloat float_0_5) ObjNone (ObjStr ''reds'') (ObjStr ''white'')
    \<noteq> create_plot topo_data data ''population'' ''Q'' tooltip_columns
      (ObjStr ''lightgrey'') (ObjFloat float_0_5) ObjNone (ObjStr ''reds'') (ObjStr ''white'') \<and>
   create_nominal_plot topo_data data ''population''
      (ObjStr ''lightgrey'') (ObjFloat float_0_5) ObjNone (ObjStr ''reds'') (ObjStr ''white'')
    \<noteq> create_plot topo_data data ''population'' ''N'' tooltip_columns
      (ObjStr ''lightgrey'') (ObjFloat float_0_5) ObjNone (ObjStr ''reds'') (ObjStr ''white'') \<and>
   (\<exists>p. create_quantitative_plot topo_data data ''population''
           (ObjStr ''lightgrey'') (ObjFloat float_0_5) ObjNone (ObjStr ''reds'') (ObjStr ''white'')
          = Inr p \<and>
        mark_stroke (layers p ! 0) = Some (ObjFloat float_0_5) \<and>
        mark_strokeWidth (layers p ! 0) = Some ObjNone \<and>
        encode_color (layers p ! 0) = Some (ColorValue (ObjStr ''white'')) \<and>
        encode_tooltip (layers p ! 1) =
          Some [''l:N'', ''i:N'', ''g:N'', ''h:N'', ''t:N'', ''g:N'', ''r:N'', ''e:N'', ''y:N''] \<and>
        encode_color (layers p ! 1) =
          Some (Color \<lparr> shorthand = ''population:Q'', legend_title_of = ObjStr ''reds'',
                        scale_scheme = ObjStr ''white'' \<rparr>))"
proof -
  let ?q = "create_plot topo_data data ''population'' ''Q'' (ObjStr ''lightgrey'')
              (ObjFloat float_0_5) ObjNone (ObjStr ''reds'') (ObjStr ''white'') (ObjStr ''white'')"
  let ?n = "create_plot topo_data data ''population'' ''N'' (ObjStr ''lightgrey'')
              (ObjFloat float_0_5) ObjNone (ObjStr ''reds'') (ObjStr ''white'') (ObjStr ''white'')"
  have it: "py_iter (ObjStr ''lightgrey'')
            = Inr [''l'', ''i'', ''g'', ''h'', ''t'', ''g'', ''r'', ''e'', ''y'']" by simp
  note q = create_plot_iterable[OF it, of topo_data data "''population''" "''Q''"
              "ObjFloat float_0_5" ObjNone "ObjStr ''reds''" "ObjStr ''white''" "ObjStr ''white''"]
  note n = create_plot_iterable[OF it, of topo_data data "''population''" "''N''"
              "ObjFloat float_0_5" ObjNone "ObjStr ''reds''" "ObjStr ''white''" "ObjStr ''white''"]
  have neq: "create_plot topo_data data ''population'' dt (ObjStr ''lightgrey'')
              (ObjFloat float_0_5) ObjNone (ObjStr ''reds'') (ObjStr ''white'') (ObjStr ''white'')
          \<noteq> create_plot topo_data data ''population'' dt tooltip_columns
              (ObjStr ''lightgrey'') (ObjFloat float_0_5) ObjNone (ObjStr ''reds'') (ObjStr ''white'')"
    (is "?l \<noteq> ?r") for dt
  proof
    assume eq: "?l = ?r"
    obtain p where p: "?l = Inr p"
      using create_plot_iterable[OF it, of topo_data data "''population''" dt] by blast
    have "mark_stroke (layers p ! 0) = Some (ObjFloat float_0_5)"
      using create_plot_stroke[OF p] .
    moreover have "mark_stroke (layers p ! 0) = Some (ObjStr ''lightgrey'')"
      using create_plot_stroke[of topo_data data "''population''" dt tooltip_columns] p eq by simp
    ultimately show False by simp
  qed
  show ?thesis
    unfolding create_quantitative_plot_def create_nominal_plot_def
    using neq[of "''Q''"] neq[of "''N''"] q by simp
qed

end
